theory Spec2Isabelle
  imports Main
begin

section \<open>Python values shared by the modules\<close>

text \<open>
  Exceptions are values. Only the classes that the modelled code raises, or lets escape,
  are listed. \<open>ConfigparserError\<close> stands for \<open>configparser.Error\<close> and its subclasses
  (the interpolation errors raised by \<open>ConfigParser.get\<close>); \<open>BackendError\<close> stands for
  whatever the external scheduler or job store raises.
\<close>

datatype py_exception =
    ValueError
  | AttributeError
  | TypeError
  | ConfigparserError
  | CheckFailure
  | BackendError

text \<open>
  A Python \<open>str\<close> is the list of its code points; the model holds the code points below
  256, one per \<open>char\<close>.
\<close>

definition py_isspace :: "char \<Rightarrow> bool" where
  "py_isspace c =
     (let n = (of_char c :: nat)
      in (9 \<le> n \<and> n \<le> 13) \<or> (28 \<le> n \<and> n \<le> 32) \<or> n = 133 \<or> n = 160)"

definition strip :: "string \<Rightarrow> string" where
  "strip s = rev (dropWhile py_isspace (rev (dropWhile py_isspace s)))"

text \<open>\<open>s.split(sep)\<close> for a separator of one character: never the empty list.\<close>

fun split_on :: "char \<Rightarrow> string \<Rightarrow> string list" where
  "split_on sep [] = [[]]"
| "split_on sep (c # cs) =
     (if c = sep then [] # split_on sep cs
      else (case split_on sep cs of
              [] \<Rightarrow> [[c]]
            | w # ws \<Rightarrow> (c # w) # ws))"

text \<open>
  \<open>str.isdigit\<close> accepts every character whose numeric type is Digit or Decimal: below 256
  these are \<open>0\<close> to \<open>9\<close> and the superscripts two, three and one (0xB2, 0xB3, 0xB9).
  \<open>int(s)\<close> reads decimal characters only, \<open>0\<close> to \<open>9\<close> below 256, and raises
  \<open>ValueError\<close> on the superscripts.
\<close>

definition char_isdigit :: "char \<Rightarrow> bool" where
  "char_isdigit c =
     (let n = (of_char c :: nat)
      in (48 \<le> n \<and> n \<le> 57) \<or> n = 178 \<or> n = 179 \<or> n = 185)"

definition char_isdecimal :: "char \<Rightarrow> bool" where
  "char_isdecimal c = (let n = (of_char c :: nat) in 48 \<le> n \<and> n \<le> 57)"

definition isdigit :: "string \<Rightarrow> bool" where
  "isdigit s = (s \<noteq> [] \<and> list_all char_isdigit s)"

text \<open>
  \<open>int(s)\<close> as the code calls it: on a string for which \<open>isdigit\<close> holds, so that no sign,
  blank or underscore occurs. (The interpreter's configurable cap on the number of digits
  is outside the model.)
\<close>

definition py_int :: "string \<Rightarrow> py_exception + int" where
  "py_int s =
     (if s \<noteq> [] \<and> list_all char_isdecimal s
      then Inr (foldl (\<lambda>acc c. 10 * acc + (int (of_char c) - 48)) 0 s)
      else Inl ValueError)"

text \<open>The comprehension \<open>[int(uid) for uid in xs if uid.isdigit()]\<close>, left to right.\<close>

fun int_list :: "string list \<Rightarrow> py_exception + int list" where
  "int_list [] = Inr []"
| "int_list (uid # uids) =
     (if isdigit uid
      then (case py_int uid of
              Inl e \<Rightarrow> Inl e
            | Inr n \<Rightarrow> (case int_list uids of
                          Inl e \<Rightarrow> Inl e
                        | Inr ns \<Rightarrow> Inr (n # ns)))
      else int_list uids)"

text \<open>\<open>s.isdisjoint(other)\<close> of a set and an iterable.\<close>

definition isdisjoint :: "'a set \<Rightarrow> 'a list \<Rightarrow> bool" where
  "isdisjoint s other = (\<not> list_ex (\<lambda>x. x \<in> s) other)"

section \<open>The configuration object\<close>

text \<open>
  \<open>ConfigManager.get_config\<close> hands out the \<open>ConfigParser\<close> that read \<open>config.ini\<close>. The code
  uses it through \<open>name in config\<close>, \<open>config.get(section, option, fallback=...)\<close> and
  \<open>config.getboolean(section, option, fallback=...)\<close>. The model keeps, for every section,
  what \<open>get\<close> finds under each option: a text, or \<open>Bad_interpolation\<close> when the stored
  text has a \<open>%\<close> that the parser's interpolation rejects, in which case \<open>get\<close> raises an
  error of class \<open>configparser.Error\<close>. Option names are the ones the code writes.
\<close>

datatype ini_value = Text string | Bad_interpolation

type_synonym ini_section = "string \<rightharpoonup> ini_value"

type_synonym config = "string \<rightharpoonup> ini_section"

definition config_contains :: "config \<Rightarrow> string \<Rightarrow> bool" where
  "config_contains cfg name = (name = ''DEFAULT'' \<or> cfg name \<noteq> None)"

definition config_get :: "config \<Rightarrow> string \<Rightarrow> string \<Rightarrow> string \<Rightarrow> py_exception + string" where
  "config_get cfg section_name option_name fallback =
     (case cfg section_name of
        None \<Rightarrow> Inr fallback
      | Some sec \<Rightarrow>
          (case sec option_name of
             None \<Rightarrow> Inr fallback
           | Some (Text v) \<Rightarrow> Inr v
           | Some Bad_interpolation \<Rightarrow> Inl ConfigparserError))"




section \<open>utils/permission\_handler.py\<close>

text \<open>
  The logger calls of this module change no result and are left out of its model.

  \<open>_parse_list_from_ini\<close>: a comma-separated text to the list of its non-blank items.
\<close>

definition parse_list_from_ini :: "string \<Rightarrow> string list" where
  "parse_list_from_ini config_str =
     (if config_str = [] then []
      else map strip (filter (\<lambda>item. strip item \<noteq> []) (split_on CHR '','' config_str)))"

text \<open>
  The object handed to the resolver. \<open>User uid\<close> is a \<open>discord.User\<close> (a caller without a
  guild, as in a direct message); \<open>Member uid roles owner\<close> is a \<open>discord.Member\<close> with the
  names of its roles and \<open>member.guild.owner_id\<close>; \<open>Other ident\<close> is an object of any other
  type, with its \<open>id\<close> attribute if it has one.
\<close>

datatype member =
    User int
  | Member int "string list" "int option"
  | Other "int option"

fun member_id :: "member \<Rightarrow> py_exception + int" where
  "member_id (User uid) = Inr uid"
| "member_id (Member uid roles owner) = Inr uid"
| "member_id (Other (Some uid)) = Inr uid"
| "member_id (Other None) = Inl AttributeError"

record PermissionManager =
  config :: config
  admin_role_names :: "string list"
  admin_user_ids :: "int list"

text \<open>
  The constructor reads section \<open>Permissions\<close>. Its \<open>try\<close> block catches every exception
  and logs it, keeping what was assigned before: an error while reading leaves both lists
  empty, an error in the conversion of the user ids leaves only that list empty.
\<close>

definition PermissionManager_init :: "config \<Rightarrow> PermissionManager" where
  "PermissionManager_init cfg =
     (case config_get cfg ''Permissions'' ''AdminRoles'' '''' of
        Inl e \<Rightarrow> \<lparr>config = cfg, admin_role_names = [], admin_user_ids = []\<rparr>
      | Inr admin_roles_str \<Rightarrow>
          (case config_get cfg ''Permissions'' ''AdminUsers'' '''' of
             Inl e \<Rightarrow> \<lparr>config = cfg, admin_role_names = [], admin_user_ids = []\<rparr>
           | Inr admin_users_str \<Rightarrow>
               (case int_list (parse_list_from_ini admin_users_str) of
                  Inl e \<Rightarrow> \<lparr>config = cfg,
                             admin_role_names = parse_list_from_ini admin_roles_str,
                             admin_user_ids = []\<rparr>
                | Inr ids \<Rightarrow> \<lparr>config = cfg,
                               admin_role_names = parse_list_from_ini admin_roles_str,
                               admin_user_ids = ids\<rparr>)))"

text \<open>
  \<open>is_bot_admin\<close>. The role comparison sits in a \<open>try\<close> block that catches every exception
  and falls through to \<open>return False\<close>; on a member with a list of role names nothing in it
  raises. The function has no other exit than its \<open>return\<close> statements, so its result is a
  plain boolean.
\<close>

fun is_bot_admin :: "PermissionManager \<Rightarrow> member \<Rightarrow> bool" where
  "is_bot_admin pm (Other ident) = False"
| "is_bot_admin pm (User uid) =
     (if uid \<in> set (admin_user_ids pm) then True else False)"
| "is_bot_admin pm (Member uid roles owner) =
     (if uid \<in> set (admin_user_ids pm) then True
      else if owner = Some uid then True
      else if \<not> isdisjoint (set roles) (admin_role_names pm) then True
      else False)"

text \<open>
  \<open>_check_specific_permission\<close>: the section is \<open>Command_<feature>\<close> if the configuration
  has it, else \<open>Feature_<feature>\<close> if it has that, else the answer is \<open>False\<close>. Both options
  are read and converted before the member is looked at; nothing here catches an
  exception.
\<close>

definition select_section :: "config \<Rightarrow> string \<Rightarrow> string option" where
  "select_section cfg feature_name =
     (let section_name_cmd = ''Command_'' @ feature_name;
          section_name_feat = ''Feature_'' @ feature_name
      in if config_contains cfg section_name_cmd then Some section_name_cmd
         else if config_contains cfg section_name_feat then Some section_name_feat
         else None)"

fun is_Member :: "member \<Rightarrow> bool" where
  "is_Member (Member uid roles owner) = True"
| "is_Member m = False"

fun role_names :: "member \<Rightarrow> string list" where
  "role_names (Member uid roles owner) = roles"
| "role_names m = []"

definition check_specific_permission ::
    "PermissionManager \<Rightarrow> member \<Rightarrow> string \<Rightarrow> py_exception + bool" where
  "check_specific_permission pm m feature_name =
     (case select_section (config pm) feature_name of
        None \<Rightarrow> Inr False
      | Some section_name \<Rightarrow>
          (case config_get (config pm) section_name ''AllowedRoles'' '''' of
             Inl e \<Rightarrow> Inl e
           | Inr allowed_roles_str \<Rightarrow>
          (case config_get (config pm) section_name ''AllowedUsers'' '''' of
             Inl e \<Rightarrow> Inl e
           | Inr allowed_users_str \<Rightarrow>
          (case int_list (parse_list_from_ini allowed_users_str) of
             Inl e \<Rightarrow> Inl e
           | Inr allowed_user_ids \<Rightarrow>
          (case member_id m of
             Inl e \<Rightarrow> Inl e
           | Inr uid \<Rightarrow>
               if uid \<in> set allowed_user_ids then Inr True
               else if is_Member m
                       \<and> \<not> isdisjoint (set (role_names m))
                                       (parse_list_from_ini allowed_roles_str)
                    then Inr True
               else Inr False)))))"

text \<open>
  What a check decorator's predicate is called with: a \<open>commands.Context\<close> (the caller is
  \<open>ctx.author\<close>), a \<open>discord.Interaction\<close> (the caller is \<open>interaction.user\<close>), or anything
  else, for which \<open>_get_ctx_or_interaction_member\<close> returns \<open>None\<close>.
\<close>

datatype invocation =
    Context member
  | Interaction member
  | Other_invocation

fun get_ctx_or_interaction_member :: "invocation \<Rightarrow> member option" where
  "get_ctx_or_interaction_member (Context author) = Some author"
| "get_ctx_or_interaction_member (Interaction user) = Some user"
| "get_ctx_or_interaction_member Other_invocation = None"

text \<open>The predicates built by \<open>admin_only\<close> and \<open>requires_permission\<close>.\<close>

definition admin_only :: "PermissionManager \<Rightarrow> invocation \<Rightarrow> py_exception + bool" where
  "admin_only pm ctx_or_interaction =
     (case get_ctx_or_interaction_member ctx_or_interaction of
        None \<Rightarrow> Inr False
      | Some m \<Rightarrow> if is_bot_admin pm m then Inr True else Inl CheckFailure)"

definition requires_permission ::
    "PermissionManager \<Rightarrow> string \<Rightarrow> invocation \<Rightarrow> py_exception + bool" where
  "requires_permission pm feature_name ctx_or_interaction =
     (case get_ctx_or_interaction_member ctx_or_interaction of
        None \<Rightarrow> Inr False
      | Some m \<Rightarrow>
          if is_bot_admin pm m then Inr True
          else (case check_specific_permission pm m feature_name of
                  Inl e \<Rightarrow> Inl e
                | Inr granted \<Rightarrow> if granted then Inr True else Inl CheckFailure))"

text \<open>
  The resolver in the words of the specification: a caller is an id with, for a guild
  member, the set of role names and whether the caller owns the guild.
\<close>

definition isBotAdmin_spec ::
    "int set \<Rightarrow> string set \<Rightarrow> int \<Rightarrow> (string set \<times> bool) option \<Rightarrow> bool" where
  "isBotAdmin_spec adminUserIds adminRoleNames caller_id guild_context =
     (if caller_id \<in> adminUserIds then True
      else (case guild_context of
              None \<Rightarrow> False
            | Some (roles, is_owner) \<Rightarrow>
                if is_owner then True
                else if roles \<inter> adminRoleNames \<noteq> {} then True
                else False))"

text \<open>
  The example scenario of the specification: \<open>AdminUsers=100001\<close>, and a section
  \<open>Command_hr_tool\<close> with \<open>AllowedRoles=HR\<close> and \<open>AllowedUsers=200001\<close>.
\<close>

definition example_config :: config where
  "example_config =
     [''Permissions'' \<mapsto> [''AdminRoles'' \<mapsto> Text ''BotAdmin, Staff'',
                          ''AdminUsers'' \<mapsto> Text ''100001''],
      ''Command_hr_tool'' \<mapsto> [''AllowedRoles'' \<mapsto> Text ''HR'',
                              ''AllowedUsers'' \<mapsto> Text ''200001'']]"

definition example_pm :: PermissionManager where
  "example_pm = PermissionManager_init example_config"



text \<open>
  A configuration whose list of allowed users holds a superscript two after a comma, and
  one whose list of allowed roles holds a \<open>%\<close> that the interpolation rejects.
\<close>

definition superscript_config :: config where
  "superscript_config =
     [''Command_x'' \<mapsto> [''AllowedUsers'' \<mapsto> Text [CHR ''7'', CHR '','', CHR 0xB2]]]"

definition percent_config :: config where
  "percent_config = [''Command_x'' \<mapsto> [''AllowedRoles'' \<mapsto> Bad_interpolation]]"

section \<open>Log records and replies\<close>

text \<open>
  What the code does to the outside is kept as a list of calls, in their order: a call of
  the logger (level, text, \<open>exc_info\<close>), a call that sends a message to the caller (the
  method called, the message, the \<open>ephemeral\<close> flag), or a call of \<open>print\<close> by the test
  branch. A \<open>Send_call\<close> says that the handler made the call; whether the platform
  delivered the message is the \<open>send_outcome\<close> below. A \<open>Log_call\<close> says that the logger
  was called; which records the configured log level lets through is the logger's
  business. The texts are named, not spelled out; a text that carries a part of the error
  carries it as an argument.
\<close>

datatype log_level = DEBUG | INFO | WARNING | ERROR | CRITICAL






section \<open>utils/error\_handler.py\<close>













section \<open>utils/db\_manager.py\<close>

text \<open>
  Table \<open>guild_settings\<close>: the rows in the order in which a \<open>select\<close> returns them. The
  table declares the pair of \<open>guild_id\<close> and \<open>setting_key\<close> unique; the database checks it
  when the session's changes are written at \<open>commit\<close>. The primary key \<open>id\<close> is the field
  \<open>row_id\<close>.
\<close>

record GuildSetting =
  row_id :: int
  guild_id :: int
  setting_key :: string
  setting_value :: string

type_synonym guild_settings = "GuildSetting list"

definition unique_pairs :: "guild_settings \<Rightarrow> bool" where
  "unique_pairs rows = distinct (map (\<lambda>r. (guild_id r, setting_key r)) rows)"

text \<open>\<open>select(...).where(guild_id == g, setting_key == k)\<close>, then \<open>.scalars().first()\<close>.\<close>

definition select_first :: "guild_settings \<Rightarrow> int \<Rightarrow> string \<Rightarrow> GuildSetting option" where
  "select_first rows g k = List.find (\<lambda>r. guild_id r = g \<and> setting_key r = k) rows"

definition next_row_id :: "guild_settings \<Rightarrow> int" where
  "next_row_id rows = foldr max (map row_id rows) 0 + 1"

text \<open>
  The blocks under \<open>async with ... as session\<close> in the three methods of
  \<open>GuildSettingRepository\<close>, as functions from the table the session starts on to the
  returned value and the table the session would write.
\<close>

type_synonym 'a session_block = "guild_settings \<Rightarrow> py_exception + ('a \<times> guild_settings)"

definition set_setting_block :: "int \<Rightarrow> string \<Rightarrow> string \<Rightarrow> unit session_block" where
  "set_setting_block g k v rows =
     (case select_first rows g k of
        Some existing_setting \<Rightarrow>
          Inr ((), map (\<lambda>r. if row_id r = row_id existing_setting
                              then r\<lparr>setting_value := v\<rparr> else r) rows)
      | None \<Rightarrow>
          Inr ((), rows @ [\<lparr>row_id = next_row_id rows, guild_id = g,
                             setting_key = k, setting_value = v\<rparr>]))"

definition get_setting_block :: "int \<Rightarrow> string \<Rightarrow> string option session_block" where
  "get_setting_block g k rows = Inr (map_option setting_value (select_first rows g k), rows)"

definition delete_setting_block :: "int \<Rightarrow> string \<Rightarrow> bool session_block" where
  "delete_setting_block g k rows =
     (case select_first rows g k of
        Some setting_to_delete \<Rightarrow>
          Inr (True, filter (\<lambda>r. row_id r \<noteq> row_id setting_to_delete) rows)
      | None \<Rightarrow> Inr (False, rows))"

text \<open>
  \<open>DatabaseManager.get_session\<close> is an \<open>async def\<close> whose body has a \<open>yield\<close>, and it carries
  no decorator (the module imports nothing from \<open>contextlib\<close>): a call runs none of the
  body and returns an async generator object. Its body, had it been driven as a context
  manager, yields the session, commits when the block ends, and on an exception rolls
  back, logs and raises it again (the log call is left out).

  \<open>async with obj\<close> needs \<open>__aenter__\<close> and \<open>__aexit__\<close> on the type of \<open>obj\<close>. An async
  generator object has neither, and the statement raises \<open>TypeError\<close> before the block
  starts.
\<close>

datatype py_object = Async_generator | Async_context_manager

definition get_session :: py_object where
  "get_session = Async_generator"

definition session_body ::
    "'a session_block \<Rightarrow> guild_settings \<Rightarrow> (py_exception + 'a) \<times> guild_settings" where
  "session_body block rows =
     (case block rows of
        Inl e \<Rightarrow> (Inl e, rows)
      | Inr (result, rows') \<Rightarrow>
          if unique_pairs rows' then (Inr result, rows') else (Inl BackendError, rows))"

definition async_with ::
    "py_object \<Rightarrow> 'a session_block \<Rightarrow> guild_settings \<Rightarrow> (py_exception + 'a) \<times> guild_settings" where
  "async_with obj block rows =
     (case obj of
        Async_generator \<Rightarrow> (Inl TypeError, rows)
      | Async_context_manager \<Rightarrow> session_body block rows)"

text \<open>The three methods: the raised exception or the returned value, and the table after.\<close>

definition set_setting ::
    "guild_settings \<Rightarrow> int \<Rightarrow> string \<Rightarrow> string \<Rightarrow> (py_exception + unit) \<times> guild_settings" where
  "set_setting rows g k v = async_with get_session (set_setting_block g k v) rows"

definition get_setting ::
    "guild_settings \<Rightarrow> int \<Rightarrow> string \<Rightarrow> (py_exception + string option) \<times> guild_settings" where
  "get_setting rows g k = async_with get_session (get_setting_block g k) rows"

definition delete_setting ::
    "guild_settings \<Rightarrow> int \<Rightarrow> string \<Rightarrow> (py_exception + bool) \<times> guild_settings" where
  "delete_setting rows g k = async_with get_session (delete_setting_block g k) rows"


section \<open>utils/task\_scheduler.py\<close>





section \<open>Properties of the permission resolver\<close>

lemma isdisjoint_iff: "isdisjoint s other \<longleftrightarrow> s \<inter> set other = {}"
  by (auto simp: isdisjoint_def list_ex_iff)

text \<open>
  C1. For a bare user and for a guild member, \<open>is_bot_admin\<close> answers as the ordered steps
  of the specification do: the id in the admin user ids first; then false without a guild
  context; then the guild owner; then a role name shared with the admin role names; else
  false. In particular a caller whose id is an admin user id is a bot admin whatever the
  roles.
\<close>

theorem is_bot_admin_follows_ordered_steps:
  "is_bot_admin pm (User uid)
     = isBotAdmin_spec (set (admin_user_ids pm)) (set (admin_role_names pm)) uid None
   \<and> is_bot_admin pm (Member uid roles owner)
     = isBotAdmin_spec (set (admin_user_ids pm)) (set (admin_role_names pm)) uid
         (Some (set roles, owner = Some uid))
   \<and> (uid \<in> set (admin_user_ids pm) \<longrightarrow>
        is_bot_admin pm (User uid) \<and> is_bot_admin pm (Member uid roles owner))"
  by (simp add: isBotAdmin_spec_def isdisjoint_iff)

theorem is_bot_admin_follows_ordered_steps_witness:
  "100001 \<in> set (admin_user_ids example_pm)
   \<and> is_bot_admin example_pm (User 100001)
   \<and> is_bot_admin example_pm (Member 100001 [] (Some 500000))
   \<and> \<not> is_bot_admin example_pm (User 500000)
   \<and> is_bot_admin example_pm (Member 500000 [] (Some 500000))
   \<and> is_bot_admin example_pm (Member 100003 [''Guest'', ''Staff''] (Some 500000))
   \<and> \<not> is_bot_admin example_pm (Member 300001 [''Sales''] (Some 500000))"
proof -
  have ids: "admin_user_ids example_pm = [100001]"
    and names: "admin_role_names example_pm = [''BotAdmin'', ''Staff'']"
    by code_simp+
  note by_id = is_bot_admin_follows_ordered_steps [of example_pm 100001 "[]" "Some 500000"]
  note owner = is_bot_admin_follows_ordered_steps [of example_pm 500000 "[]" "Some 500000"]
  note by_role = is_bot_admin_follows_ordered_steps
                   [of example_pm 100003 "[''Guest'', ''Staff'']" "Some 500000"]
  note sales = is_bot_admin_follows_ordered_steps
                 [of example_pm 300001 "[''Sales'']" "Some 500000"]
  from by_id owner by_role sales show ?thesis
    by (simp add: ids names isBotAdmin_spec_def del: is_bot_admin.simps)
qed

lemma example_pm_config: "config example_pm = example_config"
  by (simp add: example_pm_def PermissionManager_init_def split: sum.splits)

lemma example_pm_lists:
  "admin_role_names example_pm = [''BotAdmin'', ''Staff'']"
  "admin_user_ids example_pm = [100001]"
  by code_simp+


text \<open>The scenarios of the specification, run on the model.\<close>

lemma scenario_admin_by_id: "is_bot_admin example_pm (User 100001)"
  by code_simp

lemma scenario_hr_role_granted:
  "requires_permission example_pm ''hr_tool'' (Context (Member 200002 [''HR''] (Some 500000)))
     = Inr True"
  by code_simp

lemma scenario_sales_role_denied:
  "requires_permission example_pm ''hr_tool'' (Context (Member 300001 [''Sales''] (Some 500000)))
     = Inl CheckFailure"
  by code_simp

lemma check_specific_permission_no_section:
  assumes "config pm (''Command_'' @ f) = None" and "config pm (''Feature_'' @ f) = None"
  shows "check_specific_permission pm m f = Inr False"
  using assms
  by (simp add: check_specific_permission_def select_section_def config_contains_def)



text \<open>
  C3. When the configuration has neither \<open>Command_<f>\<close> nor \<open>Feature_<f>\<close>, the specific
  check answers \<open>False\<close> for every caller, and the predicate of \<open>requires_permission\<close> grants
  exactly the bot admins: it returns \<open>True\<close> for them and raises \<open>CheckFailure\<close> for
  everyone else.
\<close>

theorem no_section_result_is_is_bot_admin:
  assumes "config pm (''Command_'' @ f) = None"
    and "config pm (''Feature_'' @ f) = None"
    and "ctx = Context m \<or> ctx = Interaction m"
  shows "check_specific_permission pm m f = Inr False
       \<and> requires_permission pm f ctx = (if is_bot_admin pm m then Inr True else Inl CheckFailure)
       \<and> ((requires_permission pm f ctx = Inr True) = is_bot_admin pm m)"
proof -
  have "check_specific_permission pm m f = Inr False"
    using assms(1,2) by (rule check_specific_permission_no_section)
  with assms(3) show ?thesis
    by (auto simp: requires_permission_def split: if_splits)
qed

theorem no_section_result_is_is_bot_admin_witness:
  "config example_pm ''Command_payroll'' = None
   \<and> config example_pm ''Feature_payroll'' = None
   \<and> is_bot_admin example_pm (User 100001)
   \<and> check_specific_permission example_pm (User 100001) ''payroll'' = Inr False
   \<and> requires_permission example_pm ''payroll'' (Context (User 100001)) = Inr True"
proof -
  have absent: "config example_pm (''Command_'' @ ''payroll'') = None"
               "config example_pm (''Feature_'' @ ''payroll'') = None"
    by (simp_all add: example_pm_config example_config_def)
  have ctx: "Context (User 100001) = Context (User 100001)
             \<or> Context (User 100001) = Interaction (User 100001)"
    by simp
  have admin: "is_bot_admin example_pm (User 100001)"
    by code_simp
  from no_section_result_is_is_bot_admin [OF absent ctx] admin absent show ?thesis
    by (simp del: is_bot_admin.simps)
qed



text \<open>
  What holds of the specific check on every configuration: it never raises
  \<open>CheckFailure\<close>, so a denial is always the value \<open>False\<close>; and when the two lists of the
  selected section can be read, it returns a boolean for every user and member.
\<close>

lemma py_int_raises_ValueError: "py_int s = Inl e \<Longrightarrow> e = ValueError"
  by (simp add: py_int_def split: if_splits)

lemma int_list_raises_ValueError: "int_list xs = Inl e \<Longrightarrow> e = ValueError"
  by (induction xs) (auto split: if_splits sum.splits dest: py_int_raises_ValueError)

lemma config_get_raises_ConfigparserError:
  "config_get cfg s opt fb = Inl e \<Longrightarrow> e = ConfigparserError"
  by (auto simp: config_get_def split: option.splits ini_value.splits)

lemma check_specific_permission_denial_is_a_value:
  "check_specific_permission pm m f \<noteq> Inl CheckFailure"
  by (auto simp: check_specific_permission_def
           split: option.splits sum.splits member.splits
           dest: int_list_raises_ValueError config_get_raises_ConfigparserError
           elim: member_id.elims)

lemma check_specific_permission_returns_when_lists_are_readable:
  assumes "m = User uid \<or> m = Member uid roles owner"
    and "select_section (config pm) f = Some s"
    and "config_get (config pm) s ''AllowedRoles'' [] = Inr roles_str"
    and "config_get (config pm) s ''AllowedUsers'' [] = Inr users_str"
    and "int_list (parse_list_from_ini users_str) = Inr ids"
  shows "check_specific_permission pm m f
           = Inr (uid \<in> set ids
                  \<or> (is_Member m
                      \<and> set (role_names m) \<inter> set (parse_list_from_ini roles_str) \<noteq> {}))"
  using assms
  by (auto simp: check_specific_permission_def isdisjoint_iff)

text \<open>
  C9. \<open>is_bot_admin\<close> has a boolean for every argument. \<open>_check_specific_permission\<close> has
  not: with \<open>AllowedUsers = 7,\<close> followed by a superscript two, the second item passes
  \<open>isdigit\<close> and \<open>int\<close> raises \<open>ValueError\<close>; with an \<open>AllowedRoles\<close> that the interpolation
  rejects, \<open>get\<close> raises. Both exceptions leave the function, although the caller's id 7 is
  the first allowed user of the one configuration and no user is allowed by the other.
\<close>

theorem check_specific_permission_raises_on_unreadable_lists:
  "check_specific_permission (PermissionManager_init superscript_config) (User 7) ''x''
     = Inl ValueError
   \<and> check_specific_permission (PermissionManager_init percent_config) (User 7) ''x''
     = Inl ConfigparserError"
  by code_simp

section \<open>Properties of the error handler\<close>













section \<open>Properties of the task scheduler\<close>



section \<open>Properties of the settings store\<close>

text \<open>
  The three blocks do what the store is meant to do. These lemmas are about the blocks
  alone, and about a session that is driven as a context manager.
\<close>

lemma find_append_None:
  "List.find P xs = None \<Longrightarrow> List.find P (xs @ ys) = List.find P ys"
  by (induction xs) (auto split: if_splits)

lemma keys_after_update:
  "map (\<lambda>r. (guild_id r, setting_key r))
     (map (\<lambda>r. if row_id r = i then r\<lparr>setting_value := v\<rparr> else r) rows)
   = map (\<lambda>r. (guild_id r, setting_key r)) rows"
  by (induction rows) auto

lemma select_first_None_iff:
  "select_first rows g k = None
     \<longleftrightarrow> (g, k) \<notin> set (map (\<lambda>r. (guild_id r, setting_key r)) rows)"
  by (auto simp: select_first_def find_None_iff)

lemma set_setting_block_returns: "\<exists>rows'. set_setting_block g k v rows = Inr ((), rows')"
  by (simp add: set_setting_block_def split: option.splits)

lemma set_setting_block_unique:
  assumes "unique_pairs rows" and "set_setting_block g k v rows = Inr (u, rows')"
  shows "unique_pairs rows'"
proof (cases "select_first rows g k")
  case None
  with assms show ?thesis
    by (auto simp: set_setting_block_def unique_pairs_def select_first_None_iff)
next
  case (Some x)
  with assms(2)
  have "rows' = map (\<lambda>r. if row_id r = row_id x then r\<lparr>setting_value := v\<rparr> else r) rows"
    by (simp add: set_setting_block_def)
  with assms(1) show ?thesis
    unfolding unique_pairs_def by (simp only: keys_after_update)
qed

lemma delete_setting_block_unique:
  assumes "unique_pairs rows" and "delete_setting_block g k rows = Inr (b, rows')"
  shows "unique_pairs rows'"
  using assms
  by (auto simp: delete_setting_block_def unique_pairs_def distinct_map_filter
           split: option.splits)

lemma find_update_first:
  assumes "List.find P rows = Some x"
    and "\<And>r. P (r\<lparr>setting_value := v\<rparr>) = P r"
  shows "List.find P
           (map (\<lambda>r. if row_id r = row_id x then r\<lparr>setting_value := v\<rparr> else r) rows)
         = Some (x\<lparr>setting_value := v\<rparr>)"
  using assms
proof (induction rows)
  case Nil
  then show ?case by simp
next
  case (Cons a rows)
  then show ?case
    by (cases "P a") auto
qed

lemma select_after_set:
  assumes "set_setting_block g k v rows = Inr (u, rows')"
  shows "map_option setting_value (select_first rows' g k) = Some v"
proof (cases "select_first rows g k")
  case None
  then have "rows' = rows @ [\<lparr>row_id = next_row_id rows, guild_id = g,
                              setting_key = k, setting_value = v\<rparr>]"
    using assms by (simp add: set_setting_block_def)
  moreover have "List.find (\<lambda>r. guild_id r = g \<and> setting_key r = k) rows = None"
    using None by (simp add: select_first_def)
  ultimately show ?thesis
    by (simp add: select_first_def find_append_None)
next
  case (Some x)
  then have r: "rows' = map (\<lambda>r. if row_id r = row_id x
                                  then r\<lparr>setting_value := v\<rparr> else r) rows"
    using assms by (simp add: set_setting_block_def)
  have "List.find (\<lambda>r. guild_id r = g \<and> setting_key r = k) rows'
          = Some (x\<lparr>setting_value := v\<rparr>)"
    unfolding r using Some
    by (intro find_update_first) (simp_all add: select_first_def)
  then show ?thesis by (simp add: select_first_def)
qed

lemma select_after_delete:
  assumes "unique_pairs rows" and "delete_setting_block g k rows = Inr (b, rows')"
  shows "select_first rows' g k = None"
proof (cases "select_first rows g k")
  case None
  with assms(2) show ?thesis by (simp add: delete_setting_block_def)
next
  case (Some x)
  then have r: "rows' = filter (\<lambda>r. row_id r \<noteq> row_id x) rows"
    using assms(2) by (simp add: delete_setting_block_def)
  have x: "x \<in> set rows" "guild_id x = g" "setting_key x = k"
    using Some by (auto simp: select_first_def find_Some_iff in_set_conv_nth)
  have "\<And>r. r \<in> set rows \<Longrightarrow> guild_id r = g \<Longrightarrow> setting_key r = k \<Longrightarrow> r = x"
    using assms(1) x unfolding unique_pairs_def
    by (metis (mono_tags, lifting) distinct_map inj_onD)
  then show ?thesis
    unfolding r select_first_def find_None_iff by auto
qed

lemma session_body_set_setting:
  assumes "unique_pairs rows"
  shows "\<exists>rows'. session_body (set_setting_block g k v) rows = (Inr (), rows')
               \<and> unique_pairs rows'
               \<and> map_option setting_value (select_first rows' g k) = Some v"
proof -
  obtain rows' where b: "set_setting_block g k v rows = Inr ((), rows')"
    using set_setting_block_returns by blast
  from assms b have "unique_pairs rows'"
    by (rule set_setting_block_unique)
  moreover from b have "map_option setting_value (select_first rows' g k) = Some v"
    by (rule select_after_set)
  ultimately show ?thesis
    using b by (simp add: session_body_def)
qed

lemma context_manager_set_set_get:
  assumes "unique_pairs rows"
  shows "fst (async_with Async_context_manager (get_setting_block g k)
           (snd (async_with Async_context_manager (set_setting_block g k v2)
              (snd (async_with Async_context_manager (set_setting_block g k v1) rows)))))
         = Inr (Some v2)"
proof -
  obtain rows1 where s1: "session_body (set_setting_block g k v1) rows = (Inr (), rows1)"
    and u1: "unique_pairs rows1"
    using session_body_set_setting [OF assms] by blast
  obtain rows2 where s2: "session_body (set_setting_block g k v2) rows1 = (Inr (), rows2)"
    and u2: "unique_pairs rows2"
    and v2: "map_option setting_value (select_first rows2 g k) = Some v2"
    using session_body_set_setting [OF u1] by blast
  from s1 s2 u2 v2 show ?thesis
    by (simp add: async_with_def session_body_def get_setting_block_def)
qed

lemma context_manager_delete_get:
  assumes "unique_pairs rows"
  shows "fst (async_with Async_context_manager (get_setting_block g k)
           (snd (async_with Async_context_manager (delete_setting_block g k) rows)))
         = Inr None"
proof -
  obtain b rows' where d: "delete_setting_block g k rows = Inr (b, rows')"
    by (cases "select_first rows g k") (auto simp: delete_setting_block_def)
  from assms d have u: "unique_pairs rows'"
    by (rule delete_setting_block_unique)
  from assms d have "select_first rows' g k = None"
    by (rule select_after_delete)
  with d u show ?thesis
    by (simp add: async_with_def session_body_def get_setting_block_def)
qed

lemma operations_leave_the_table:
  "snd (set_setting rows g k v) = rows"
  "snd (get_setting rows g k) = rows"
  "snd (delete_setting rows g k) = rows"
  by (simp_all add: set_setting_def get_setting_def delete_setting_def get_session_def
                    async_with_def)

text \<open>
  C7. The module's own test stores \<open>!\<close> and then \<open>$\<close> under \<open>prefix\<close> for guild 999999 and
  reads the key back. On the code each of the three calls raises \<open>TypeError\<close> at its
  \<open>async with\<close>, the table stays empty, and nothing is read; so does every call of the
  three methods, on every table.
\<close>

theorem every_store_operation_raises_TypeError:
  "get_setting
     (snd (set_setting (snd (set_setting [] 999999 ''prefix'' ''!'')) 999999 ''prefix'' ''$''))
     999999 ''prefix''
   = (Inl TypeError, [])
   \<and> set_setting rows g k v = (Inl TypeError, rows)
   \<and> get_setting rows g k = (Inl TypeError, rows)
   \<and> delete_setting rows g k = (Inl TypeError, rows)"
  by (simp add: set_setting_def get_setting_def delete_setting_def get_session_def
                async_with_def)

text \<open>
  C8. A table holds one row for guild 999999 and key \<open>prefix\<close>, with value \<open>!\<close>. The call
  \<open>set_setting(999999, 'prefix', '$')\<close> raises \<open>TypeError\<close> and the row keeps its value: the
  pair stays unique, but the existing row is not updated.
\<close>

theorem set_setting_on_existing_pair_updates_nothing:
  "set_setting
     [\<lparr>row_id = 1, guild_id = 999999, setting_key = ''prefix'', setting_value = ''!''\<rparr>]
     999999 ''prefix'' ''$''
   = (Inl TypeError,
      [\<lparr>row_id = 1, guild_id = 999999, setting_key = ''prefix'', setting_value = ''!''\<rparr>])"
  by (simp add: set_setting_def get_session_def async_with_def)

end
